theory Spec2Isabelle
  imports Complex_Main "HOL-Library.Log_Nat"
begin

section \<open>Python floats: IEEE 754 binary64 with round-to-nearest-even\<close>

text \<open>
  The script computes with Python \<^verbatim>\<open>float\<close>s. A finite binary64 value is a
  rational number, so a value is modelled as a \<^typ>\<open>rat\<close> and every arithmetic
  operation of the source as the exact operation followed by the rounding \<open>fl\<close> to the
  nearest binary64 value, ties to the even significand. Subnormal numbers are covered
  (the exponent is cut off at \<open>-1022\<close>); the exponent is unbounded above, so the model
  is that of the hardware as long as magnitudes stay below \<open>2 ^ 1024\<close>, which they do
  with a wide margin for parameters in the declared ranges: no infinity and no NaN
  arises there. A Python \<^verbatim>\<open>int\<close> of
  magnitude below \<open>2 ^ 53\<close> is a binary64 value and its arithmetic in the script
  (\<^verbatim>\<open>temperature - 20\<close>, \<^verbatim>\<open>stirring_speed / 500\<close>) gives the same
  results as the float arithmetic, so one model serves both kinds of argument.
\<close>

type_synonym pyfloat = rat

definition rne :: "rat \<Rightarrow> int" where
  \<comment> \<open>round to the nearest integer, ties to even\<close>
  "rne x = (let f = \<lfloor>x\<rfloor>; d = x - of_int f in
            if d < 1 / 2 then f else if 1 / 2 < d then f + 1
            else if even f then f else f + 1)"

definition expo :: "rat \<Rightarrow> int" where
  \<comment> \<open>the binary exponent: \<open>2 ^ expo x \<le> \<bar>x\<bar> < 2 ^ (expo x + 1)\<close> for \<open>x \<noteq> 0\<close>\<close>
  "expo x = (if 1 \<le> \<bar>x\<bar> then bitlen \<lfloor>\<bar>x\<bar>\<rfloor> - 1 else - bitlen (\<lceil>1 / \<bar>x\<bar>\<rceil> - 1))"

definition eff :: "rat \<Rightarrow> int" where
  \<comment> \<open>the exponent in effect: below \<open>2 ^ - 1022\<close> the numbers are subnormal\<close>
  "eff x = max (expo x) (- 1022)"

definition ulp :: "rat \<Rightarrow> rat" where
  \<comment> \<open>the spacing of binary64 values around \<open>x\<close>: 53 significant bits\<close>
  "ulp x = 2 powi (eff x - 52)"

definition fl :: "rat \<Rightarrow> pyfloat" where
  "fl x = (if x = 0 then 0 else of_int (rne (x / ulp x)) * ulp x)"

definition fadd :: "pyfloat \<Rightarrow> pyfloat \<Rightarrow> pyfloat" where
  "fadd x y = fl (x + y)"

definition fsub :: "pyfloat \<Rightarrow> pyfloat \<Rightarrow> pyfloat" where
  "fsub x y = fl (x - y)"

definition fmul :: "pyfloat \<Rightarrow> pyfloat \<Rightarrow> pyfloat" where
  "fmul x y = fl (x * y)"

definition fdiv :: "pyfloat \<Rightarrow> pyfloat \<Rightarrow> pyfloat" where
  \<comment> \<open>every divisor in the script is a non-zero literal\<close>
  "fdiv x y = fl (x / y)"

definition max_py :: "pyfloat \<Rightarrow> pyfloat \<Rightarrow> pyfloat" where
  \<comment> \<open>Python's \<^verbatim>\<open>max(a, b)\<close>: the first argument unless the second is greater\<close>
  "max_py a b = (if a < b then b else a)"

definition min_py :: "pyfloat \<Rightarrow> pyfloat \<Rightarrow> pyfloat" where
  \<comment> \<open>Python's \<^verbatim>\<open>min(a, b)\<close>: the first argument unless the second is smaller\<close>
  "min_py a b = (if b < a then b else a)"

section \<open>The evaluation function\<close>

text \<open>
  \<^verbatim>\<open>evaluate_extraction\<close> of \<^verbatim>\<open>scripts/ll_extraction_2.py\<close>, one definition
  per assignment. The decimal literals \<^verbatim>\<open>0.3\<close>, \<^verbatim>\<open>0.2\<close>, \<^verbatim>\<open>0.1\<close>,
  \<^verbatim>\<open>0.7\<close> and \<^verbatim>\<open>0.6\<close> are not binary64 values and stand for their roundings;
  \<^verbatim>\<open>0.5\<close>, \<^verbatim>\<open>1.0\<close> and the integer literals are exact. Operators associate as
  in Python: \<^verbatim>\<open>a + b + c\<close> is \<^verbatim>\<open>(a + b) + c\<close> and \<^verbatim>\<open>a * b / c\<close> is
  \<^verbatim>\<open>(a * b) / c\<close>.
\<close>

definition R_raw :: "pyfloat \<Rightarrow> pyfloat \<Rightarrow> pyfloat \<Rightarrow> pyfloat" where
  "R_raw organic_composition stirring_speed temperature =
     fadd (fadd (fadd (fl (3 / 10)) (fmul (1 / 2) organic_composition))
                (fmul (fl (2 / 10)) (fdiv stirring_speed 500)))
          (fmul (fl (1 / 10)) (fdiv temperature 40))"

definition P_raw :: "pyfloat \<Rightarrow> pyfloat \<Rightarrow> pyfloat" where
  "P_raw aqueous_composition temperature =
     fadd (fadd 85 (fmul 10 aqueous_composition))
          (fdiv (fmul 5 (fsub temperature 20)) 36)"

definition S_raw :: "pyfloat \<Rightarrow> pyfloat \<Rightarrow> pyfloat" where
  "S_raw stirring_speed temperature =
     fadd (fadd (fl (7 / 10)) (fmul (fl (2 / 10)) (fsub 1 (fdiv stirring_speed 500))))
          (fdiv (fmul (fl (1 / 10)) (fsub temperature 4)) 36)"

definition E_raw :: "pyfloat \<Rightarrow> pyfloat \<Rightarrow> pyfloat" where
  "E_raw stirring_speed stirring_time =
     fadd (fadd (fl (1 / 10)) (fmul (fl (6 / 10)) (fdiv stirring_speed 500)))
          (fmul (fl (3 / 10)) (fdiv stirring_time 120))"

definition percent :: "pyfloat \<Rightarrow> pyfloat" where
  \<comment> \<open>\<^verbatim>\<open>min(max(X, 0), 1.0) * 100\<close>\<close>
  "percent X = fmul (min_py (max_py X 0) 1) 100"

definition T_raw :: "pyfloat \<Rightarrow> pyfloat \<Rightarrow> pyfloat \<Rightarrow> pyfloat" where
  \<comment> \<open>\<open>S\<close> and \<open>E\<close> are the clamped percentages\<close>
  "T_raw stirring_time S E =
     fadd (fadd (fadd stirring_time 50) (fmul 1000 (fsub 1 (fdiv S 100))))
          (fmul 500 (fdiv E 100))"

definition evaluate_extraction ::
  "pyfloat \<Rightarrow> pyfloat \<Rightarrow> pyfloat \<Rightarrow> pyfloat \<Rightarrow> pyfloat \<Rightarrow> (string \<rightharpoonup> pyfloat)" where
  "evaluate_extraction aqueous_composition organic_composition stirring_speed
                       stirring_time temperature =
     (let R = R_raw organic_composition stirring_speed temperature;
          R = percent R;
          P = P_raw aqueous_composition temperature;
          P = min_py (max_py P 0) 100;
          S = S_raw stirring_speed temperature;
          S = percent S;
          E = E_raw stirring_speed stirring_time;
          E = percent E;
          T = T_raw stirring_time S E;
          T = min_py (max_py T 0) 2000
      in [''recovery'' \<mapsto> R, ''purity'' \<mapsto> P, ''separation'' \<mapsto> S,
          ''emulsion'' \<mapsto> E, ''total_time'' \<mapsto> T])"

section \<open>The experiment declaration\<close>

text \<open>
  The arguments of \<^verbatim>\<open>ax_client.create_experiment\<close>: four range parameters with
  their bounds, five objectives, no parameter constraint; and the trial budget.
\<close>

definition parameters :: "(string \<times> pyfloat \<times> pyfloat) list" where
  "parameters =
     [(''aqueous_composition'', 0, 1), (''stirring_speed'', 100, 500),
      (''stirring_time'', 10, 120), (''temperature'', 4, 40)]"

record objective_properties =
  minimize :: bool
  threshold :: "pyfloat option"

definition objectives :: "(string \<times> objective_properties) list" where
  "objectives =
     [(''recovery'', \<lparr>minimize = False, threshold = Some 50\<rparr>),
      (''purity'', \<lparr>minimize = False, threshold = Some 90\<rparr>),
      (''separation'', \<lparr>minimize = False, threshold = None\<rparr>),
      (''emulsion'', \<lparr>minimize = True, threshold = None\<rparr>),
      (''total_time'', \<lparr>minimize = True, threshold = Some 1200\<rparr>)]"


definition in_bounds :: "(string \<rightharpoonup> pyfloat) \<Rightarrow> bool" where
  \<comment> \<open>a candidate that gives every declared parameter a value within its bounds\<close>
  "in_bounds p =
     list_all (\<lambda>(name, lo, hi). case p name of None \<Rightarrow> False | Some v \<Rightarrow> lo \<le> v \<and> v \<le> hi)
       parameters"

section \<open>The optimizer\<close>

datatype error =
    KeyError string
  | UnknownTrialError nat
  | DuplicateCompletionError nat
  | IncompleteResultError nat

text \<open>
  The script talks to an \<^verbatim>\<open>AxClient\<close> of the Ax library, which is not part of
  the repository. The loop is therefore written over any optimizer: a state of some type
  \<open>'c\<close> and the two calls the loop makes, each of which may raise.
\<close>

record 'c optimizer =
  get_next_trial :: "'c \<Rightarrow> error + (((string \<rightharpoonup> pyfloat) \<times> nat) \<times> 'c)"
  complete_trial :: "'c \<Rightarrow> nat \<Rightarrow> (string \<rightharpoonup> pyfloat) \<Rightarrow> error + 'c"

text \<open>
  Modelled from the spec: the \<^verbatim>\<open>AxClient\<close> itself. The specification describes it
  as an opaque service (its section 6) that hands out the next free trial index, indices
  increasing, together with a candidate parameterization, and that rejects the
  completion of an already completed index with \<open>DuplicateCompletionError\<close>. The
  client's state is the sequence of its trials (the Trial of section 3); a fresh
  experiment has none. How a candidate is chosen is outside the specification: it is the
  parameter \<open>suggest\<close>, any function of the history. The completion of an index that
  was never handed out is rejected too; the specification leaves that case open and the
  script never does it. Raw data that lack a declared objective are an evaluation failure
  (section 4.3) and the trial is then marked failed (section 3 and 7); the client does
  that marking when it is given the data, and returns normally.
\<close>

datatype trial_status = Pending | Completed | Failed

record trial =
  index :: nat
  params :: "string \<rightharpoonup> pyfloat"
  status :: trial_status
  result :: "(string \<rightharpoonup> pyfloat) option"

type_synonym ax_client = "trial list"

definition create_experiment :: ax_client where
  \<comment> \<open>Modelled from the spec: a fresh experiment of the absent Ax client has no trial\<close>
  "create_experiment = []"

definition ax_get_next_trial ::
  "(ax_client \<Rightarrow> (string \<rightharpoonup> pyfloat)) \<Rightarrow> ax_client \<Rightarrow>
     error + (((string \<rightharpoonup> pyfloat) \<times> nat) \<times> ax_client)" where
  \<comment> \<open>Modelled from the spec: \<^verbatim>\<open>get_next_trial\<close> of the absent Ax client hands out
      the next free index with a candidate, and the trial is pending\<close>
  "ax_get_next_trial suggest ax =
     (let p = suggest ax; i = length ax
      in Inr ((p, i), ax @ [\<lparr>index = i, params = p, status = Pending, result = None\<rparr>]))"

definition has_all_objectives :: "(string \<rightharpoonup> pyfloat) \<Rightarrow> bool" where
  \<comment> \<open>the raw data give every declared objective a value\<close>
  "has_all_objectives raw_data =
     list_all (\<lambda>(name, properties). raw_data name \<noteq> None) objectives"

definition ax_complete_trial ::
  "ax_client \<Rightarrow> nat \<Rightarrow> (string \<rightharpoonup> pyfloat) \<Rightarrow> error + ax_client" where
  \<comment> \<open>Modelled from the spec: \<^verbatim>\<open>complete_trial\<close> of the absent Ax client records the
      raw data, marks the trial completed, or failed when the data lack a declared
      objective, and rejects an index that is not pending\<close>
  "ax_complete_trial ax trial_index raw_data =
     (if length ax \<le> trial_index then Inl (UnknownTrialError trial_index)
      else if status (ax ! trial_index) \<noteq> Pending then Inl (DuplicateCompletionError trial_index)
      else Inr (ax[trial_index := (ax ! trial_index)
                  \<lparr>status := (if has_all_objectives raw_data then Completed else Failed),
                   result := Some raw_data\<rparr>]))"

definition ax_client :: "(ax_client \<Rightarrow> (string \<rightharpoonup> pyfloat)) \<Rightarrow> ax_client optimizer" where
  \<comment> \<open>Modelled from the spec: the absent Ax client as an optimizer\<close>
  "ax_client suggest =
     \<lparr>get_next_trial = ax_get_next_trial suggest, complete_trial = ax_complete_trial\<rparr>"

section \<open>The trial loop\<close>

text \<open>
  The module-level loop of \<^verbatim>\<open>scripts/ll_extraction_2.py\<close>. The state threaded
  through it is the client's state together with a log of what the loop has done so
  far: each call of \<^verbatim>\<open>get_next_trial\<close> that returned, with the index it returned,
  each call of the evaluation function with its five arguments, each call of
  \<^verbatim>\<open>complete_trial\<close> that returned. An exception ends the script where it is
  raised, since the loop has no \<^verbatim>\<open>try\<close>; the outcome then carries the error and
  the state reached. The evaluation function is a parameter of the loop body; the script
  passes \<open>evaluate_extraction\<close>. The progress line printed every fifth trial does
  not touch this state and is left out. What the script does after the loop (the data
  frame, the best parameters, the plots) is not part of the loop and is not modelled.
\<close>

datatype event =
    GetNextTrial nat
  | Evaluate pyfloat pyfloat pyfloat pyfloat pyfloat
  | CompleteTrial nat

record 'c run_state =
  client :: 'c
  events :: "event list"

datatype 'c outcome = Done "'c run_state" | Raised error "'c run_state"

definition lookup :: "(string \<rightharpoonup> pyfloat) \<Rightarrow> string \<Rightarrow> error + pyfloat" where
  \<comment> \<open>the subscription \<^verbatim>\<open>parameterization[key]\<close>\<close>
  "lookup d key = (case d key of None \<Rightarrow> Inl (KeyError key) | Some v \<Rightarrow> Inr v)"

definition resolve ::
  "(string \<rightharpoonup> pyfloat) \<Rightarrow> error + (pyfloat \<times> pyfloat \<times> pyfloat \<times> pyfloat \<times> pyfloat)" where
  \<comment> \<open>"Extract parameters": the five assignments at the head of the loop body\<close>
  "resolve parameterization =
     (case lookup parameterization ''aqueous_composition'' of
        Inl e \<Rightarrow> Inl e
      | Inr aqueous_composition \<Rightarrow>
          (let organic_composition = fsub 1 aqueous_composition in
           (case lookup parameterization ''stirring_speed'' of
              Inl e \<Rightarrow> Inl e
            | Inr stirring_speed \<Rightarrow>
                (case lookup parameterization ''stirring_time'' of
                   Inl e \<Rightarrow> Inl e
                 | Inr stirring_time \<Rightarrow>
                     (case lookup parameterization ''temperature'' of
                        Inl e \<Rightarrow> Inl e
                      | Inr temperature \<Rightarrow>
                          Inr (aqueous_composition, organic_composition, stirring_speed,
                               stirring_time, temperature))))))"

definition trial_body ::
  "(pyfloat \<Rightarrow> pyfloat \<Rightarrow> pyfloat \<Rightarrow> pyfloat \<Rightarrow> pyfloat \<Rightarrow> (string \<rightharpoonup> pyfloat)) \<Rightarrow>
   'c optimizer \<Rightarrow> 'c run_state \<Rightarrow> 'c outcome" where
  "trial_body evaluate opt rs =
     (case get_next_trial opt (client rs) of
        Inl e \<Rightarrow> Raised e rs
      | Inr ((parameterization, trial_index), c1) \<Rightarrow>
          (let rs1 = \<lparr>client = c1, events = events rs @ [GetNextTrial trial_index]\<rparr> in
           (case resolve parameterization of
              Inl e \<Rightarrow> Raised e rs1
            | Inr (aqueous_composition, organic_composition, stirring_speed,
                   stirring_time, temperature) \<Rightarrow>
                (let results = evaluate aqueous_composition organic_composition
                                 stirring_speed stirring_time temperature;
                     rs2 = rs1\<lparr>events := events rs1 @
                             [Evaluate aqueous_composition organic_composition
                                stirring_speed stirring_time temperature]\<rparr> in
                 (case complete_trial opt (client rs2) trial_index results of
                    Inl e \<Rightarrow> Raised e rs2
                  | Inr c2 \<Rightarrow>
                      Done \<lparr>client = c2, events = events rs2 @ [CompleteTrial trial_index]\<rparr>)))))"

fun run_trials ::
  "(pyfloat \<Rightarrow> pyfloat \<Rightarrow> pyfloat \<Rightarrow> pyfloat \<Rightarrow> pyfloat \<Rightarrow> (string \<rightharpoonup> pyfloat)) \<Rightarrow>
   'c optimizer \<Rightarrow> nat list \<Rightarrow> 'c run_state \<Rightarrow> 'c outcome" where
  \<comment> \<open>\<^verbatim>\<open>for i in range(num_trials)\<close> over the list of the values of \<open>i\<close>\<close>
  "run_trials evaluate opt [] rs = Done rs"
| "run_trials evaluate opt (i # is) rs =
     (case trial_body evaluate opt rs of
        Raised e rs' \<Rightarrow> Raised e rs'
      | Done rs' \<Rightarrow> run_trials evaluate opt is rs')"

definition run :: "nat \<Rightarrow> 'c optimizer \<Rightarrow> 'c \<Rightarrow> 'c outcome" where
  \<comment> \<open>the loop of the script for a budget \<open>n\<close>, from the client's state \<open>c\<close>\<close>
  "run n opt c = run_trials evaluate_extraction opt [0..<n] \<lparr>client = c, events = []\<rparr>"


fun final_state :: "'c outcome \<Rightarrow> 'c run_state" where
  "final_state (Done rs) = rs"
| "final_state (Raised e rs) = rs"

fun sequential :: "nat option \<Rightarrow> event list \<Rightarrow> bool" where
  \<comment> \<open>the log, read from a moment with the given trial in flight, never has a second
      trial requested before the one in flight is reported\<close>
  "sequential cur [] = True"
| "sequential cur (Evaluate a b c d e # es) = sequential cur es"
| "sequential None (GetNextTrial i # es) = sequential (Some i) es"
| "sequential (Some j) (GetNextTrial i # es) = False"
| "sequential (Some j) (CompleteTrial i # es) = (i = j \<and> sequential None es)"
| "sequential None (CompleteTrial i # es) = False"

fun in_flight :: "nat option \<Rightarrow> event list \<Rightarrow> nat option" where
  \<comment> \<open>the trial requested and not yet reported once the log has been read\<close>
  "in_flight cur [] = cur"
| "in_flight cur (GetNextTrial i # es) = in_flight (Some i) es"
| "in_flight cur (Evaluate a b c d e # es) = in_flight cur es"
| "in_flight cur (CompleteTrial i # es) = in_flight None es"

fun requested :: "event list \<Rightarrow> nat list" where
  \<comment> \<open>the trial indices handed out, in the order of the calls\<close>
  "requested [] = []"
| "requested (GetNextTrial i # es) = i # requested es"
| "requested (Evaluate a b c d e # es) = requested es"
| "requested (CompleteTrial i # es) = requested es"

fun reported :: "event list \<Rightarrow> nat list" where
  \<comment> \<open>the trial indices reported back, in the order of the calls\<close>
  "reported [] = []"
| "reported (GetNextTrial i # es) = reported es"
| "reported (Evaluate a b c d e # es) = reported es"
| "reported (CompleteTrial i # es) = i # reported es"


definition trial_events :: "trial \<Rightarrow> event list" where
  \<comment> \<open>what the loop body logs for a trial that it requests, evaluates and reports\<close>
  "trial_events tr =
     (case resolve (params tr) of
        Inl e \<Rightarrow> [GetNextTrial (index tr)]
      | Inr (aqueous_composition, organic_composition, stirring_speed, stirring_time,
             temperature) \<Rightarrow>
          [GetNextTrial (index tr),
           Evaluate aqueous_composition organic_composition stirring_speed stirring_time
             temperature,
           CompleteTrial (index tr)])"

definition trial_evaluated :: "trial \<Rightarrow> bool" where
  \<comment> \<open>the trial is completed and holds the result of \<open>evaluate_extraction\<close> on its own
      parameterization, the organic fraction derived\<close>
  "trial_evaluated tr =
     (case resolve (params tr) of
        Inl e \<Rightarrow> False
      | Inr (aqueous_composition, organic_composition, stirring_speed, stirring_time,
             temperature) \<Rightarrow>
          status tr = Completed \<and>
          result tr = Some (evaluate_extraction aqueous_composition organic_composition
                              stirring_speed stirring_time temperature))"

definition idle :: "event list \<Rightarrow> bool" where
  \<comment> \<open>no second trial was ever requested early, and no trial is in flight now\<close>
  "idle es \<longleftrightarrow> sequential None es \<and> in_flight None es = None"

text \<open>
  Two inputs for the concrete evaluations below: the candidate of the specification's
  end-to-end scenario, and an evaluation function whose result lacks four of the five
  declared objectives.
\<close>

definition scenario :: "string \<rightharpoonup> pyfloat" where
  "scenario =
     [''aqueous_composition'' \<mapsto> 1 / 2, ''stirring_speed'' \<mapsto> 300,
      ''stirring_time'' \<mapsto> 60, ''temperature'' \<mapsto> 20]"

definition suggest_scenario :: "ax_client \<Rightarrow> (string \<rightharpoonup> pyfloat)" where
  "suggest_scenario ax = scenario"


section \<open>Properties of the rounding\<close>


lemma rne_cases: "rne x = \<lfloor>x\<rfloor> \<or> rne x = \<lfloor>x\<rfloor> + 1"
  by (simp add: rne_def Let_def)

lemma rne_of_int: "rne (of_int k) = k"
  by (simp add: rne_def Let_def)

lemma rne_mono:
  assumes "x \<le> y"
  shows "rne x \<le> rne y"
proof (cases "\<lfloor>x\<rfloor> < \<lfloor>y\<rfloor>")
  case True
  have "rne x \<le> \<lfloor>x\<rfloor> + 1" using rne_cases [of x] by auto
  also have "\<dots> \<le> \<lfloor>y\<rfloor>" using True by simp
  also have "\<dots> \<le> rne y" using rne_cases [of y] by auto
  finally show ?thesis .
next
  case False
  with assms have eq: "\<lfloor>x\<rfloor> = \<lfloor>y\<rfloor>"
    using floor_mono [of x y] by simp
  then have "x - of_int \<lfloor>x\<rfloor> \<le> y - of_int \<lfloor>y\<rfloor>"
    using assms by simp
  then show ?thesis
    using eq by (auto simp: rne_def Let_def)
qed


lemma rne_minus: "rne (- x) = - rne x"
proof (cases "x = of_int \<lfloor>x\<rfloor>")
  case True
  then obtain k where "x = of_int k" ..
  then have "rne x = k" "rne (- x) = - k"
    using rne_of_int [of k] rne_of_int [of "- k"] by simp_all
  then show ?thesis by simp
next
  case False
  then have lt: "of_int \<lfloor>x\<rfloor> < x" "x < of_int \<lfloor>x\<rfloor> + 1"
    by linarith+
  have fl: "\<lfloor>- x\<rfloor> = - \<lfloor>x\<rfloor> - 1"
    using lt by (intro floor_unique) auto
  show ?thesis
    using lt by (auto simp: rne_def Let_def fl)
qed



lemma expo_bounds_ge1:
  assumes "1 \<le> \<bar>x\<bar>"
  shows "2 powi expo x \<le> \<bar>x\<bar>" "\<bar>x\<bar> < 2 powi (expo x + 1)"
proof -
  define n where "n = \<lfloor>\<bar>x\<bar>\<rfloor>"
  have n1: "1 \<le> n" using assms by (simp add: n_def le_floor_iff)
  have e: "expo x = bitlen n - 1" using assms by (simp add: expo_def n_def)
  have b1: "1 \<le> bitlen n" using n1 by (simp add: bitlen_ge_iff_power)
  have bb: "2 ^ nat (bitlen n - 1) \<le> n" "n < 2 ^ nat (bitlen n)"
    using bitlen_bounds [of n] n1 by auto
  have "(2::rat) powi expo x = 2 ^ nat (bitlen n - 1)"
    using b1 by (simp add: e power_int_def)
  also have "\<dots> = of_int (2 ^ nat (bitlen n - 1))" by simp
  also have "\<dots> \<le> of_int n" using bb(1) by (simp only: of_int_le_iff)
  also have "\<dots> \<le> \<bar>x\<bar>" by (simp add: n_def)
  finally show "2 powi expo x \<le> \<bar>x\<bar>" .
  have "\<bar>x\<bar> < of_int (n + 1)" unfolding n_def by simp linarith
  also have "\<dots> \<le> of_int (2 ^ nat (bitlen n))"
    using bb(2) by (simp only: of_int_le_iff)
  also have "\<dots> = (2::rat) powi (expo x + 1)"
    using b1 by (simp add: e power_int_def)
  finally show "\<bar>x\<bar> < 2 powi (expo x + 1)" .
qed

lemma expo_bounds_lt1:
  assumes "x \<noteq> 0" "\<bar>x\<bar> < 1"
  shows "2 powi expo x \<le> \<bar>x\<bar>" "\<bar>x\<bar> < 2 powi (expo x + 1)"
proof -
  define y where "y = 1 / \<bar>x\<bar>"
  define m where "m = \<lceil>y\<rceil> - 1"
  have xpos: "0 < \<bar>x\<bar>" using assms by simp
  have y1: "1 < y" using assms xpos by (simp add: y_def)
  have my: "of_int m < y" "y \<le> of_int m + 1"
    by (simp_all add: m_def ceiling_correct [of y] less_ceiling_iff [symmetric])
  have m1: "1 \<le> m" using y1 by (simp add: m_def)
  have e: "expo x = - bitlen m" using assms by (simp add: expo_def m_def y_def)
  have b1: "1 \<le> bitlen m" using m1 by (simp add: bitlen_ge_iff_power)
  have bb: "2 ^ nat (bitlen m - 1) \<le> m" "m < 2 ^ nat (bitlen m)"
    using bitlen_bounds [of m] m1 by auto
  have x_eq: "\<bar>x\<bar> = 1 / y" using xpos by (simp add: y_def)
  have "of_int m + 1 \<le> (of_int (2 ^ nat (bitlen m)) :: rat)"
    using bb(2) by (metis of_int_1 of_int_add of_int_le_iff zless_imp_add1_zle)
  then have yle: "y \<le> 2 ^ nat (bitlen m)" using my(2) by simp
  have "(2::rat) powi expo x = 1 / 2 ^ nat (bitlen m)"
    using b1 by (simp add: e power_int_minus_divide power_int_nonneg_exp)
  also have "\<dots> \<le> 1 / y"
    using yle y1 by (simp add: frac_le)
  finally show "2 powi expo x \<le> \<bar>x\<bar>" by (simp add: x_eq)
  have "(of_int (2 ^ nat (bitlen m - 1)) :: rat) \<le> of_int m"
    using bb(1) by (simp only: of_int_le_iff)
  then have "(2::rat) ^ nat (bitlen m - 1) \<le> of_int m" by simp
  then have ylt: "2 ^ nat (bitlen m - 1) < y" using my(1) by linarith
  have "1 / y < 1 / 2 ^ nat (bitlen m - 1)"
    using ylt y1 by (intro divide_strict_left_mono mult_pos_pos) simp_all
  also have "\<dots> = (2::rat) powi (expo x + 1)"
  proof -
    have "expo x + 1 = - (bitlen m - 1)" by (simp add: e)
    then show ?thesis
      using b1 by (simp only: power_int_minus_divide) (simp add: power_int_nonneg_exp)
  qed
  finally show "\<bar>x\<bar> < 2 powi (expo x + 1)" by (simp add: x_eq)
qed

lemma expo_bounds:
  assumes "x \<noteq> 0"
  shows "2 powi expo x \<le> \<bar>x\<bar>" "\<bar>x\<bar> < 2 powi (expo x + 1)"
  using assms expo_bounds_ge1 [of x] expo_bounds_lt1 [of x]
  by (cases "1 \<le> \<bar>x\<bar>"; simp)+

lemma expo_le:
  assumes "x \<noteq> 0" "\<bar>x\<bar> \<le> \<bar>y\<bar>"
  shows "expo x \<le> expo y"
proof (rule ccontr)
  assume "\<not> expo x \<le> expo y"
  then have "expo y + 1 \<le> expo x" by simp
  then have "(2::rat) powi (expo y + 1) \<le> 2 powi expo x"
    by (intro power_int_increasing) simp_all
  moreover have "y \<noteq> 0" using assms by auto
  ultimately show False
    using expo_bounds(1) [OF assms(1)] expo_bounds(2) [of y] assms(2) by linarith
qed

lemma expo_minus: "expo (- x) = expo x"
  by (simp add: expo_def)

lemma ulp_minus: "ulp (- x) = ulp x"
  by (simp add: ulp_def eff_def expo_minus)

lemma ulp_pos: "0 < ulp x"
  by (simp add: ulp_def)

lemma fl_minus: "fl (- x) = - fl x"
  by (simp add: fl_def ulp_minus rne_minus)




lemma ulp_times_53: "of_int (2 ^ 53) * ulp x = 2 powi (eff x + 1)"
proof -
  have "(2::rat) powi (eff x + 1) = 2 powi (53 + (eff x - 52))"
    by (rule arg_cong [where f = "power_int 2"]) simp
  also have "\<dots> = 2 powi 53 * 2 powi (eff x - 52)"
    by (rule power_int_add) simp
  finally show ?thesis by (simp add: ulp_def)
qed

lemma ulp_times_52: "of_int (2 ^ 52) * ulp x = 2 powi eff x"
proof -
  have "(2::rat) powi eff x = 2 powi (52 + (eff x - 52))" by simp
  also have "\<dots> = 2 powi 52 * 2 powi (eff x - 52)"
    by (rule power_int_add) simp
  finally show ?thesis by (simp add: ulp_def)
qed

lemma fl_le_grid:
  assumes "x \<le> of_int k * ulp x"
  shows "fl x \<le> of_int k * ulp x"
proof (cases "x = 0")
  case True
  with assms show ?thesis by (simp add: fl_def)
next
  case False
  have "x / ulp x \<le> of_int k" using assms ulp_pos [of x] by (simp add: field_simps)
  then have "rne (x / ulp x) \<le> k" using rne_mono rne_of_int by metis
  then have "(of_int (rne (x / ulp x)) :: rat) \<le> of_int k" by simp
  then show ?thesis using False ulp_pos [of x] by (simp add: fl_def)
qed

lemma fl_ge_grid:
  assumes "of_int k * ulp x \<le> x"
  shows "of_int k * ulp x \<le> fl x"
proof (cases "x = 0")
  case True
  with assms show ?thesis by (simp add: fl_def)
next
  case False
  have "of_int k \<le> x / ulp x" using assms ulp_pos [of x] by (simp add: field_simps)
  then have "k \<le> rne (x / ulp x)" using rne_mono rne_of_int by metis
  then have "(of_int k :: rat) \<le> of_int (rne (x / ulp x))" by simp
  then show ?thesis using False ulp_pos [of x] by (simp add: fl_def)
qed

lemma fl_nonneg: "0 \<le> x \<Longrightarrow> 0 \<le> fl x"
  using fl_ge_grid [of 0 x] by simp

lemma fl_mono_pos:
  assumes "0 < x" "x \<le> y"
  shows "fl x \<le> fl y"
proof -
  have nz: "x \<noteq> 0" "y \<noteq> 0" using assms by auto
  have "expo x \<le> expo y" using assms by (intro expo_le) auto
  then have le: "eff x \<le> eff y" by (simp add: eff_def)
  show ?thesis
  proof (cases "eff x = eff y")
    case True
    then have u: "ulp y = ulp x" by (simp add: ulp_def)
    have "x / ulp x \<le> y / ulp x" using assms ulp_pos [of x] by (simp add: divide_right_mono)
    then have "rne (x / ulp x) \<le> rne (y / ulp x)" by (rule rne_mono)
    then have "(of_int (rne (x / ulp x)) :: rat) \<le> of_int (rne (y / ulp x))" by simp
    then show ?thesis using nz ulp_pos [of x] by (simp add: fl_def u)
  next
    case False
    with le have lt: "eff x + 1 \<le> eff y" by simp
    then have ey: "eff y = expo y" by (simp add: eff_def)
    have "x < 2 powi (expo x + 1)" using expo_bounds(2) [OF nz(1)] assms by simp
    also have "\<dots> \<le> 2 powi (eff x + 1)"
      by (intro power_int_increasing) (simp_all add: eff_def)
    finally have "x \<le> of_int (2 ^ 53) * ulp x" by (simp only: ulp_times_53)
    then have "fl x \<le> of_int (2 ^ 53) * ulp x" by (rule fl_le_grid)
    also have "\<dots> = 2 powi (eff x + 1)" by (rule ulp_times_53)
    also have "\<dots> \<le> 2 powi eff y"
      using lt by (intro power_int_increasing) simp_all
    also have "\<dots> \<le> fl y"
    proof -
      have "2 powi eff y \<le> y" using expo_bounds(1) [OF nz(2)] assms by (simp add: ey)
      then have "of_int (2 ^ 52) * ulp y \<le> y" by (simp only: ulp_times_52)
      then have "of_int (2 ^ 52) * ulp y \<le> fl y" by (rule fl_ge_grid)
      then show ?thesis by (simp only: ulp_times_52)
    qed
    finally show ?thesis .
  qed
qed

lemma fl_mono:
  assumes "x \<le> y"
  shows "fl x \<le> fl y"
proof -
  consider "0 < x" | "x \<le> 0" "0 \<le> y" | "y < 0" by linarith
  then show ?thesis
  proof cases
    case 1
    then show ?thesis using assms by (rule fl_mono_pos)
  next
    case 2
    have "fl x = - fl (- x)" by (simp add: fl_minus)
    moreover have "0 \<le> fl (- x)" using 2 by (intro fl_nonneg) simp
    moreover have "0 \<le> fl y" using 2 by (intro fl_nonneg)
    ultimately show ?thesis by simp
  next
    case 3
    then have "fl (- y) \<le> fl (- x)" using assms by (intro fl_mono_pos) simp_all
    then show ?thesis by (simp add: fl_minus)
  qed
qed





text \<open>
  The rounding on some values whose binary64 neighbours are known: the double nearest to
  one tenth, and two ties that go to the even significand.
\<close>

lemma fl_examples:
  "fl (1 / 10) = 3602879701896397 / 36028797018963968"
  "fl (1 + 1 / 2 ^ 53) = 1"
  "fl (1 + 3 / 2 ^ 53) = 1 + 1 / 2 ^ 51"
  by code_simp+









section \<open>Properties of the evaluation function\<close>

lemma fadd_mono: "x \<le> x' \<Longrightarrow> y \<le> y' \<Longrightarrow> fadd x y \<le> fadd x' y'"
  unfolding fadd_def by (intro fl_mono add_mono)

lemma fsub_mono: "x \<le> x' \<Longrightarrow> y' \<le> y \<Longrightarrow> fsub x y \<le> fsub x' y'"
  unfolding fsub_def by (intro fl_mono diff_mono)

lemma fmul_mono: "0 \<le> c \<Longrightarrow> x \<le> y \<Longrightarrow> fmul c x \<le> fmul c y"
  unfolding fmul_def by (intro fl_mono mult_left_mono)

lemma fdiv_mono: "0 \<le> c \<Longrightarrow> x \<le> y \<Longrightarrow> fdiv x c \<le> fdiv y c"
  unfolding fdiv_def by (intro fl_mono divide_right_mono)

lemma P_raw_mono: "a \<le> a' \<Longrightarrow> t \<le> t' \<Longrightarrow> P_raw a t \<le> P_raw a' t'"
  unfolding P_raw_def by (intro fadd_mono fdiv_mono fmul_mono fsub_mono) simp_all

lemma T_raw_mono:
  "t \<le> t' \<Longrightarrow> S' \<le> S \<Longrightarrow> E \<le> E' \<Longrightarrow> T_raw t S E \<le> T_raw t' S' E'"
  unfolding T_raw_def by (intro fadd_mono fdiv_mono fmul_mono fsub_mono) simp_all

lemma P_raw_lo: "P_raw 0 4 = 1456242067009991 / 17592186044416"
  by code_simp

lemma P_raw_hi: "P_raw 1 40 = 1720124857676231 / 17592186044416"
  by code_simp

lemma T_raw_lo: "T_raw 10 100 0 = 60"
  by code_simp

lemma T_raw_hi: "T_raw 120 0 100 = 1670"
  by code_simp

lemma fl_100: "fl 100 = 100"
  by code_simp

lemma percent_range: "0 \<le> percent X" "percent X \<le> 100"
proof -
  define c where "c = min_py (max_py X 0) 1"
  have c: "0 \<le> c" "c \<le> 1" by (simp_all add: c_def min_py_def max_py_def)
  have "fl 0 \<le> fl (c * 100)" using c by (intro fl_mono) simp
  then show "0 \<le> percent X" by (simp add: percent_def fmul_def c_def fl_def)
  have "fl (c * 100) \<le> fl 100" using c by (intro fl_mono) simp
  then show "percent X \<le> 100" by (simp add: percent_def fmul_def c_def fl_100)
qed


lemma R_scenario: "percent (R_raw (1 / 2) 300 20) = 5066549580791809 / 70368744177664"
  by code_simp

lemma P_scenario: "P_raw (1 / 2) 20 = 90"
  by code_simp

lemma S_scenario: "percent (S_raw 300 20) = 5801512019980743 / 70368744177664"
  by code_simp

lemma E_scenario: "percent (E_raw 300 60) = 61"
  by code_simp

lemma T_scenario:
  "T_raw 60 (5801512019980743 / 70368744177664) 61 = 5194581601448391 / 8796093022208"
  by code_simp

lemma organic_scenario: "fsub 1 (1 / 2) = 1 / 2"
  by code_simp

lemma evaluate_scenario:
  "evaluate_extraction (1 / 2) (1 / 2) 300 60 20 =
     [''recovery'' \<mapsto> 5066549580791809 / 70368744177664, ''purity'' \<mapsto> 90,
      ''separation'' \<mapsto> 5801512019980743 / 70368744177664, ''emulsion'' \<mapsto> 61,
      ''total_time'' \<mapsto> 5194581601448391 / 8796093022208]"
  by (simp add: evaluate_extraction_def R_scenario P_scenario S_scenario E_scenario
        T_scenario min_py_def max_py_def)

lemma evaluate_extraction_eq:
  "evaluate_extraction a o' s st t =
     [''recovery'' \<mapsto> percent (R_raw o' s t),
      ''purity'' \<mapsto> min_py (max_py (P_raw a t) 0) 100,
      ''separation'' \<mapsto> percent (S_raw s t),
      ''emulsion'' \<mapsto> percent (E_raw s st),
      ''total_time'' \<mapsto>
         min_py (max_py (T_raw st (percent (S_raw s t)) (percent (E_raw s st))) 0) 2000]"
  by (simp add: evaluate_extraction_def Let_def)

lemma clamp_range:
  "lo \<le> hi \<Longrightarrow> lo \<le> min_py (max_py X lo) hi \<and> min_py (max_py X lo) hi \<le> hi"
  by (simp add: min_py_def max_py_def)

lemma clamp_inactive: "lo \<le> X \<Longrightarrow> X \<le> hi \<Longrightarrow> min_py (max_py X lo) hi = X"
  by (simp add: min_py_def max_py_def)

lemma dom_evaluate_extraction:
  "dom (evaluate_extraction a o' s st t) = fst ` set objectives"
  by (simp add: evaluate_extraction_eq objectives_def insert_commute)

lemma P_raw_bounds:
  assumes "0 \<le> a" "a \<le> 1" "4 \<le> t" "t \<le> 40"
  shows "8277 / 100 \<le> P_raw a t" "P_raw a t \<le> 9778 / 100"
proof -
  have "P_raw 0 4 \<le> P_raw a t" "P_raw a t \<le> P_raw 1 40"
    using assms by (intro P_raw_mono; simp)+
  then show "8277 / 100 \<le> P_raw a t" "P_raw a t \<le> 9778 / 100"
    by (simp_all add: P_raw_lo P_raw_hi)
qed

lemma T_raw_bounds:
  assumes "10 \<le> st" "st \<le> 120"
  shows "60 \<le> T_raw st (percent X) (percent Y)" "T_raw st (percent X) (percent Y) \<le> 1670"
proof -
  have "T_raw 10 100 0 \<le> T_raw st (percent X) (percent Y)"
    using assms percent_range by (intro T_raw_mono) simp_all
  then show "60 \<le> T_raw st (percent X) (percent Y)" by (simp add: T_raw_lo)
  have "T_raw st (percent X) (percent Y) \<le> T_raw 120 0 100"
    using assms percent_range by (intro T_raw_mono) simp_all
  then show "T_raw st (percent X) (percent Y) \<le> 1670" by (simp add: T_raw_hi)
qed

lemma percent_saturated: "1 \<le> X \<Longrightarrow> percent X = 100"
  by (simp add: percent_def min_py_def max_py_def fmul_def fl_100)


lemma R_raw_top: "R_raw (fsub 1 0) 500 40 = 2476979795053773 / 2251799813685248"
  by code_simp


section \<open>The claims about the evaluation function\<close>

text \<open>
  Claim C1, as amended. For \<open>aqueous_composition = 0.5\<close>, \<open>stirring_speed = 300\<close>,
  \<open>stirring_time = 60\<close>, \<open>temperature = 20\<close>, with the derived
  \<open>organic_composition = 0.5\<close>, the evaluation function returns the recovery
  \<open>72.00000000000001\<close> (the formula gives 72, and the float result is within
  \<open>1 / 10 ^ 13\<close> of it), the purity \<open>90.0\<close> and the separation \<open>82.44444444444444\<close>,
  which is 82.44 rounded to two decimals. The figures 68.0 and 78.44 are not what the
  formulas give: \<open>0.3 + 0.25 + 0.12 + 0.05 = 0.72\<close> and
  \<open>0.7 + 0.08 + 0.0444\<dots> = 0.8244\<dots>\<close>.
\<close>

theorem scenario_figures:
  "fsub 1 (1 / 2) = 1 / 2 \<and>
   evaluate_extraction (1 / 2) (1 / 2) 300 60 20 ''recovery'' =
     Some (5066549580791809 / 70368744177664) \<and>
   \<bar>5066549580791809 / 70368744177664 - (72::rat)\<bar> \<le> 1 / 10 ^ 13 \<and>
   evaluate_extraction (1 / 2) (1 / 2) 300 60 20 ''purity'' = Some 90 \<and>
   evaluate_extraction (1 / 2) (1 / 2) 300 60 20 ''separation'' =
     Some (5801512019980743 / 70368744177664) \<and>
   \<bar>5801512019980743 / 70368744177664 - (8244 / 100 :: rat)\<bar> < 1 / 200"
  by (simp add: evaluate_scenario organic_scenario)

text \<open>
  The figures of claim C1 as it was stated fail at its own input: the recovery is not 68,
  and the separation is further than half a hundredth from 78.44.
\<close>

theorem scenario_figures_counterexample:
  "evaluate_extraction (1 / 2) (1 / 2) 300 60 20 ''recovery'' \<noteq> Some 68 \<and>
   1 / 200 < \<bar>the (evaluate_extraction (1 / 2) (1 / 2) 300 60 20 ''separation'') - 7844 / 100\<bar>"
  by (simp add: evaluate_scenario)

text \<open>
  Claim C3. For every parameterization within the declared bounds, with the organic
  fraction derived from the aqueous one, the evaluation function returns a mapping with
  exactly the five declared objectives, each value within its range: recovery, purity,
  separation and emulsion in \<open>[0, 100]\<close>, total time in \<open>[0, 2000]\<close>. The function
  has no error result: the clamps saturate, whatever the raw value.
\<close>

theorem evaluate_extraction_in_range:
  assumes "0 \<le> a" "a \<le> 1" "100 \<le> s" "s \<le> 500" "10 \<le> st" "st \<le> 120" "4 \<le> t" "t \<le> 40"
  shows "\<exists>R P S E T.
           evaluate_extraction a (fsub 1 a) s st t =
             [''recovery'' \<mapsto> R, ''purity'' \<mapsto> P, ''separation'' \<mapsto> S,
              ''emulsion'' \<mapsto> E, ''total_time'' \<mapsto> T] \<and>
           dom (evaluate_extraction a (fsub 1 a) s st t) = fst ` set objectives \<and>
           0 \<le> R \<and> R \<le> 100 \<and> 0 \<le> P \<and> P \<le> 100 \<and> 0 \<le> S \<and> S \<le> 100 \<and>
           0 \<le> E \<and> E \<le> 100 \<and> 0 \<le> T \<and> T \<le> 2000"
proof -
  have P: "0 \<le> min_py (max_py (P_raw a t) 0) 100 \<and> min_py (max_py (P_raw a t) 0) 100 \<le> 100"
    by (rule clamp_range) simp
  have T: "0 \<le> min_py (max_py (T_raw st (percent (S_raw s t)) (percent (E_raw s st))) 0) 2000 \<and>
           min_py (max_py (T_raw st (percent (S_raw s t)) (percent (E_raw s st))) 0) 2000 \<le> 2000"
    by (rule clamp_range) simp
  show ?thesis
    using P T percent_range [of "R_raw (fsub 1 a) s t"] percent_range [of "S_raw s t"]
      percent_range [of "E_raw s st"] dom_evaluate_extraction [of a "fsub 1 a" s st t]
      evaluate_extraction_eq [of a "fsub 1 a" s st t]
    by blast
qed

theorem evaluate_extraction_in_range_witness:
  "(0::rat) \<le> 1 / 2 \<and> (1 / 2 :: rat) \<le> 1 \<and> (100::rat) \<le> 300 \<and> (300::rat) \<le> 500 \<and>
   (10::rat) \<le> 60 \<and> (60::rat) \<le> 120 \<and> (4::rat) \<le> 20 \<and> (20::rat) \<le> 40 \<and>
   (\<exists>R P S E T.
      evaluate_extraction (1 / 2) (fsub 1 (1 / 2)) 300 60 20 =
        [''recovery'' \<mapsto> R, ''purity'' \<mapsto> P, ''separation'' \<mapsto> S,
         ''emulsion'' \<mapsto> E, ''total_time'' \<mapsto> T] \<and>
      dom (evaluate_extraction (1 / 2) (fsub 1 (1 / 2)) 300 60 20) = fst ` set objectives \<and>
      0 \<le> R \<and> R \<le> 100 \<and> 0 \<le> P \<and> P \<le> 100 \<and> 0 \<le> S \<and> S \<le> 100 \<and>
      0 \<le> E \<and> E \<le> 100 \<and> 0 \<le> T \<and> T \<le> 2000)"
  using evaluate_extraction_in_range [of "1 / 2" 300 60 20] by simp

text \<open>
  Claim C8. With \<open>stirring_speed\<close> at its upper bound 500 and the other parameters
  within their bounds, the recovery never exceeds 100; where the raw value reaches 1 or
  more, the result is exactly 100.
\<close>

theorem recovery_saturates_at_upper_speed:
  assumes "0 \<le> a" "a \<le> 1" "10 \<le> st" "st \<le> 120" "4 \<le> t" "t \<le> 40"
  shows "\<exists>R. evaluate_extraction a (fsub 1 a) 500 st t ''recovery'' = Some R \<and> R \<le> 100 \<and>
             (1 \<le> R_raw (fsub 1 a) 500 t \<longrightarrow> R = 100)"
  using percent_range(2) [of "R_raw (fsub 1 a) 500 t"]
    percent_saturated [of "R_raw (fsub 1 a) 500 t"]
  by (simp add: evaluate_extraction_eq)

theorem recovery_saturates_at_upper_speed_witness:
  "(0::rat) \<le> 0 \<and> (0::rat) \<le> 1 \<and> (10::rat) \<le> 10 \<and> (10::rat) \<le> 120 \<and>
   (4::rat) \<le> 40 \<and> (40::rat) \<le> 40 \<and> 1 \<le> R_raw (fsub 1 0) 500 40 \<and>
   evaluate_extraction 0 (fsub 1 0) 500 10 40 ''recovery'' = Some 100"
  using recovery_saturates_at_upper_speed [of 0 10 40] by (simp add: R_raw_top)

text \<open>
  Claim C10. Within the declared bounds the clamps of purity and total time are never
  active: the purity is the raw value, which lies between 82.77 and 97.78, and the total
  time is the raw value, which lies between 60 and 1670.
\<close>

theorem purity_and_total_time_clamps_inactive:
  assumes "0 \<le> a" "a \<le> 1" "100 \<le> s" "s \<le> 500" "10 \<le> st" "st \<le> 120" "4 \<le> t" "t \<le> 40"
  shows "evaluate_extraction a (fsub 1 a) s st t ''purity'' = Some (P_raw a t) \<and>
         8277 / 100 \<le> P_raw a t \<and> P_raw a t \<le> 9778 / 100 \<and>
         evaluate_extraction a (fsub 1 a) s st t ''total_time'' =
           Some (T_raw st (percent (S_raw s t)) (percent (E_raw s st))) \<and>
         60 \<le> T_raw st (percent (S_raw s t)) (percent (E_raw s st)) \<and>
         T_raw st (percent (S_raw s t)) (percent (E_raw s st)) \<le> 1670"
proof -
  note P = P_raw_bounds [OF assms(1,2,7,8)]
  note T = T_raw_bounds [OF assms(5,6), of "S_raw s t" "E_raw s st"]
  have "min_py (max_py (P_raw a t) 0) 100 = P_raw a t"
    using P by (intro clamp_inactive) simp_all
  moreover have "min_py (max_py (T_raw st (percent (S_raw s t)) (percent (E_raw s st))) 0) 2000 =
      T_raw st (percent (S_raw s t)) (percent (E_raw s st))"
    using T by (intro clamp_inactive) simp_all
  ultimately show ?thesis
    using P T by (simp add: evaluate_extraction_eq)
qed

theorem purity_and_total_time_clamps_inactive_witness:
  "(0::rat) \<le> 1 / 2 \<and> (1 / 2 :: rat) \<le> 1 \<and> (100::rat) \<le> 300 \<and> (300::rat) \<le> 500 \<and>
   (10::rat) \<le> 60 \<and> (60::rat) \<le> 120 \<and> (4::rat) \<le> 20 \<and> (20::rat) \<le> 40 \<and>
   evaluate_extraction (1 / 2) (fsub 1 (1 / 2)) 300 60 20 ''purity'' = Some (P_raw (1 / 2) 20) \<and>
   P_raw (1 / 2) 20 = 90 \<and>
   evaluate_extraction (1 / 2) (fsub 1 (1 / 2)) 300 60 20 ''total_time'' =
     Some (T_raw 60 (percent (S_raw 300 20)) (percent (E_raw 300 60))) \<and>
   T_raw 60 (percent (S_raw 300 20)) (percent (E_raw 300 60)) =
     5194581601448391 / 8796093022208"
  using purity_and_total_time_clamps_inactive [of "1 / 2" 300 60 20]
  by (simp add: P_scenario S_scenario E_scenario T_scenario)

section \<open>Properties of the trial loop\<close>

lemma sequential_append:
  "sequential c (es @ es') \<longleftrightarrow> sequential c es \<and> sequential (in_flight c es) es'"
proof (induction c es rule: sequential.induct)
qed auto

lemma in_flight_append: "in_flight c (es @ es') = in_flight (in_flight c es) es'"
  by (induction c es rule: in_flight.induct) auto

lemma requested_append: "requested (es @ es') = requested es @ requested es'"
  by (induction es rule: requested.induct) auto


lemma sequential_examples:
  "sequential None [GetNextTrial 0, Evaluate a b c d e, CompleteTrial 0, GetNextTrial 1]"
  "\<not> sequential None [GetNextTrial 0, GetNextTrial 1, CompleteTrial 0]"
  "\<not> sequential None [GetNextTrial 0, CompleteTrial 1]"
  by simp_all

lemma trial_body_sequential:
  assumes "idle (events rs)"
  shows "case trial_body evaluate opt rs of
           Done rs' \<Rightarrow> idle (events rs')
         | Raised e rs' \<Rightarrow> sequential None (events rs')"
  using assms
  by (auto simp: trial_body_def idle_def Let_def sequential_append in_flight_append
      split: sum.splits prod.splits)

lemma run_trials_sequential:
  "idle (events rs) \<Longrightarrow> sequential None (events (final_state (run_trials evaluate opt is rs)))"
proof (induction "is" arbitrary: rs)
  case Nil
  then show ?case by (simp add: idle_def)
next
  case (Cons i "is")
  show ?case
    using trial_body_sequential [OF Cons.prems, of evaluate opt] Cons.IH
    by (auto split: outcome.splits)
qed

lemma in_boundsD:
  assumes "in_bounds p"
  shows "\<exists>a s st t. p ''aqueous_composition'' = Some a \<and> 0 \<le> a \<and> a \<le> 1 \<and>
           p ''stirring_speed'' = Some s \<and> 100 \<le> s \<and> s \<le> 500 \<and>
           p ''stirring_time'' = Some st \<and> 10 \<le> st \<and> st \<le> 120 \<and>
           p ''temperature'' = Some t \<and> 4 \<le> t \<and> t \<le> 40"
  using assms by (auto simp: in_bounds_def parameters_def split: option.splits)

lemma resolve_in_bounds:
  assumes "in_bounds p"
  shows "\<exists>a s st t. resolve p = Inr (a, fsub 1 a, s, st, t)"
proof -
  from in_boundsD [OF assms] obtain a s st t where
    "p ''aqueous_composition'' = Some a" "p ''stirring_speed'' = Some s"
    "p ''stirring_time'' = Some st" "p ''temperature'' = Some t"
    by blast
  then have "resolve p = Inr (a, fsub 1 a, s, st, t)"
    by (simp add: resolve_def lookup_def)
  then show ?thesis by blast
qed



lemma has_all_objectives_evaluate_extraction:
  "has_all_objectives (evaluate_extraction a o' s st t)"
  by (simp add: has_all_objectives_def objectives_def evaluate_extraction_eq)

lemma ax_trial_body_Done:
  assumes "resolve (suggest (client rs)) = Inr (a, o', s, st, t)"
  shows "trial_body evaluate (ax_client suggest) rs =
           Done \<lparr>client = client rs @ [\<lparr>index = length (client rs),
                    params = suggest (client rs),
                    status = (if has_all_objectives (evaluate a o' s st t)
                              then Completed else Failed),
                    result = Some (evaluate a o' s st t)\<rparr>],
                 events = events rs @ [GetNextTrial (length (client rs)),
                                Evaluate a o' s st t, CompleteTrial (length (client rs))]\<rparr>"
  using assms
  by (simp add: trial_body_def ax_client_def ax_get_next_trial_def ax_complete_trial_def Let_def)



lemma trial_evaluated_events:
  "trial_evaluated tr \<Longrightarrow>
     requested (trial_events tr) = [index tr] \<and> reported (trial_events tr) = [index tr] \<and>
     (\<forall>es. idle es \<longrightarrow> idle (es @ trial_events tr))"
  by (auto simp: trial_evaluated_def trial_events_def idle_def sequential_append
      in_flight_append split: sum.splits)


lemma evaluated_trials_requested:
  "list_all trial_evaluated new \<Longrightarrow> requested (concat (map trial_events new)) = map index new"
  by (induction new) (simp_all add: requested_append trial_evaluated_events)



lemma ax_run_trials:
  assumes "\<forall>ax. in_bounds (suggest ax)"
  shows "\<exists>new. run_trials evaluate_extraction (ax_client suggest) is rs =
             Done \<lparr>client = client rs @ new,
                   events = events rs @ concat (map trial_events new)\<rparr> \<and>
           map index new = [length (client rs)..<length (client rs) + length is] \<and>
           list_all trial_evaluated new"
proof (induction "is" arbitrary: rs)
  case Nil
  show ?case by simp
next
  case (Cons i "is")
  obtain a s st t where r: "resolve (suggest (client rs)) = Inr (a, fsub 1 a, s, st, t)"
    using resolve_in_bounds assms by blast
  define tr where "tr = \<lparr>index = length (client rs), params = suggest (client rs),
    status = Completed, result = Some (evaluate_extraction a (fsub 1 a) s st t)\<rparr>"
  define rs1 where "rs1 = \<lparr>client = client rs @ [tr], events = events rs @ trial_events tr\<rparr>"
  have ev: "trial_events tr = [GetNextTrial (length (client rs)), Evaluate a (fsub 1 a) s st t,
      CompleteTrial (length (client rs))]"
    by (simp add: trial_events_def tr_def r)
  have te: "trial_evaluated tr"
    by (simp add: trial_evaluated_def tr_def r)
  have body: "trial_body evaluate_extraction (ax_client suggest) rs = Done rs1"
    using ax_trial_body_Done [where suggest = suggest and rs = rs
        and evaluate = evaluate_extraction, OF r]
    unfolding rs1_def ev
    by (simp add: tr_def has_all_objectives_evaluate_extraction)
  from Cons.IH [of rs1] obtain new where
    new: "run_trials evaluate_extraction (ax_client suggest) is rs1 =
        Done \<lparr>client = client rs1 @ new,
              events = events rs1 @ concat (map trial_events new)\<rparr>"
      "map index new = [length (client rs1)..<length (client rs1) + length is]"
      "list_all trial_evaluated new"
    by blast
  have upt: "[length (client rs)..<length (client rs) + length (i # is)] =
      length (client rs) # [length (client rs1)..<length (client rs1) + length is]"
    by (simp add: rs1_def upt_rec)
  have "run_trials evaluate_extraction (ax_client suggest) (i # is) rs =
      Done \<lparr>client = client rs @ (tr # new),
            events = events rs @ concat (map trial_events (tr # new))\<rparr>"
    using body new(1) by (simp add: rs1_def)
  moreover have "map index (tr # new) =
      [length (client rs)..<length (client rs) + length (i # is)]"
    unfolding upt using new(2) by (simp add: tr_def)
  moreover have "list_all trial_evaluated (tr # new)"
    using te new(3) by simp
  ultimately show ?case by blast
qed

lemma ax_run:
  assumes "\<forall>ax. in_bounds (suggest ax)"
  shows "\<exists>rs. run n (ax_client suggest) create_experiment = Done rs \<and>
           map index (client rs) = [0..<n] \<and>
           list_all trial_evaluated (client rs) \<and>
           events rs = concat (map trial_events (client rs))"
  using ax_run_trials [OF assms, of "[0..<n]" "\<lparr>client = create_experiment, events = []\<rparr>"]
  by (auto simp: run_def create_experiment_def)

lemma in_bounds_scenario: "in_bounds (suggest_scenario ax)"
  by (simp add: in_bounds_def parameters_def suggest_scenario_def scenario_def)









section \<open>The claims about the trial loop\<close>






text \<open>
  Claim C5. A run with budget \<open>n\<close> on a fresh experiment, whose candidates are within
  the declared bounds, produces exactly the trial indices \<open>0, \<dots>, n - 1\<close>, in
  increasing order, without gap or repeat.
\<close>

theorem trial_indices_consecutive:
  assumes "\<forall>ax. in_bounds (suggest ax)"
  shows "\<exists>rs. run n (ax_client suggest) create_experiment = Done rs \<and>
           requested (events rs) = [0..<n] \<and> map index (client rs) = [0..<n] \<and>
           set (requested (events rs)) = {0..<n} \<and> distinct (requested (events rs)) \<and>
           sorted_wrt (<) (requested (events rs))"
proof -
  from ax_run [OF assms, of n] obtain rs where
    rs: "run n (ax_client suggest) create_experiment = Done rs"
      "map index (client rs) = [0..<n]" "list_all trial_evaluated (client rs)"
      "events rs = concat (map trial_events (client rs))"
    by blast
  have req: "requested (events rs) = [0..<n]"
    using evaluated_trials_requested [OF rs(3)] rs(2,4) by simp
  have "set (requested (events rs)) = {0..<n}" "distinct (requested (events rs))"
    "sorted_wrt (<) (requested (events rs))"
    unfolding req by simp_all
  with rs req show ?thesis by blast
qed

theorem trial_indices_consecutive_witness:
  "(\<forall>ax. in_bounds (suggest_scenario ax)) \<and>
   (\<exists>rs. run 3 (ax_client suggest_scenario) create_experiment = Done rs \<and>
      requested (events rs) = [0, 1, 2] \<and> map index (client rs) = [0, 1, 2])"
proof -
  have h: "\<forall>ax. in_bounds (suggest_scenario ax)" by (simp add: in_bounds_scenario)
  have u: "[0..<3] = [0, 1, 2::nat]" by (simp add: upt_rec)
  from trial_indices_consecutive [OF h, of 3] obtain rs where
    "run 3 (ax_client suggest_scenario) create_experiment = Done rs"
    "requested (events rs) = [0..<3]" "map index (client rs) = [0..<3]"
    by blast
  then have "\<exists>rs. run 3 (ax_client suggest_scenario) create_experiment = Done rs \<and>
      requested (events rs) = [0, 1, 2] \<and> map index (client rs) = [0, 1, 2]"
    unfolding u by (intro exI [of _ rs] conjI)
  with h show ?thesis by (rule conjI)
qed

text \<open>
  Claim C6. Trials are processed strictly sequentially, whatever the optimizer and the
  budget, and also in a run that an exception ends: in the log, a candidate is requested
  only when no trial is in flight, and a report is always the report of the trial in
  flight.
\<close>

theorem trials_strictly_sequential:
  "sequential None (events (final_state (run n opt c)))"
  unfolding run_def by (rule run_trials_sequential) (simp add: idle_def)



end
